theory Spec2Isabelle
  imports Complex_Main
begin

section \<open>Data model of cpp\_wrappers/log\_likelihood.py\<close>

text \<open>
  The enum \<open>C_GP.LogLikelihoodTypes\<close>, as the two constructors of
  \<open>LogMarginalLikelihood\<close> and \<open>LeaveOneOutLogLikelihood\<close> name its members.
\<close>

datatype LogLikelihoodTypes = log_marginal_likelihood | leave_one_out_log_likelihood

text \<open>
  The three classes of the module. Method lookup goes through the dynamic class of the
  evaluator, so the class is part of the object.
\<close>

datatype evaluator_class = LogLikelihood | LogMarginalLikelihood | LeaveOneOutLogLikelihood

text \<open>The exceptions the module raises, with their messages.\<close>

datatype error = NotImplementedError string
  | UnsupportedOperation
  | InvalidDomain
  | ConfigurationError

text \<open>\<open>geometry_utils.ClosedInterval(min, max)\<close>.\<close>

datatype ClosedInterval = ClosedInterval (interval_min: real) (interval_max: real)

text \<open>
  Modelled from the spec: the covariance kernel class is not part of the module. The spec
  gives it a hyperparameter vector with a getter and a setter, and
  \<open>num_hyperparameters\<close> is the length of that vector.
\<close>

record Covariance =
  hyperparameters :: "real list"

text \<open>
  Modelled from the spec: the historical-data container is not part of the module. It
  exposes \<open>dim\<close>, \<open>num_sampled\<close> and three arrays; the arrays are objects of their
  own (the module hands each of them to \<open>cpp_utils.cppify\<close>), so the container holds
  references to them.
\<close>

record HistoricalData =
  dim_field :: nat
  num_sampled :: nat
  points_sampled :: nat
  points_sampled_value :: nat
  noise_variance :: nat

text \<open>
  The optimizer choices of \<open>HyperparameterOptimizationParameters\<close>
  (null search, gradient descent, Newton) and the fields of that object the module and the
  engine read or write.
\<close>

datatype OptimizerTypes = null_optimizer | gradient_descent | newton

record HyperparameterOptimizationParameters =
  objective_type :: LogLikelihoodTypes
  optimizer_type :: OptimizerTypes
  num_multistarts :: int

text \<open>
  The object store. Python objects are shared by reference: every mutable object the
  module touches lives in a cell, one family of cells per class, and \<open>next_ref\<close> is the
  first address no object has been given yet. A status dict maps its string keys to the
  flags the engine reports.
\<close>

record heap =
  covs :: "nat \<Rightarrow> Covariance"
  hists :: "nat \<Rightarrow> HistoricalData"
  vecs :: "nat \<Rightarrow> real list"
  mats :: "nat \<Rightarrow> real list list"
  params :: "nat \<Rightarrow> HyperparameterOptimizationParameters"
  dicts :: "nat \<Rightarrow> (string \<rightharpoonup> bool)"
  next_ref :: nat

text \<open>
  An evaluator object: its class and the three attributes \<open>_covariance\<close>,
  \<open>_historical_data\<close> and \<open>_log_likelihood_type\<close> that \<open>__init__\<close> sets. No method
  of the module assigns them again.
\<close>

record evaluator =
  ev_class :: evaluator_class
  ev_covariance :: nat
  ev_historical_data :: nat
  ev_log_likelihood_type :: LogLikelihoodTypes

text \<open>
  The native layer \<open>moe.build.GPP\<close> (imported as \<open>C_GP\<close>) is compiled code outside
  the module. Its numeric entry points are parameters of the model: the two evaluation
  functions take the arguments of lines 224-232 and 248-256 in that order (the marshalling
  by \<open>cpp_utils.cppify\<close> is part of the parameter), the sampler gives the i-th
  Latin-Hypercube point for a domain, a number of points and a randomness source, and the
  two iterative local optimizers refine one starting point. \<open>'r\<close> is the type of
  \<open>RandomnessSourceContainer\<close> objects. The two seed setters take the base seed and,
  as the comments at lines 112-113 say of them ("set seed based on less repeatable factors
  (e.g., time)", "thread id"), factors of the environment at the moment of the call: these
  are their last argument.
\<close>

record 'r native =
  cpp_compute_log_likelihood ::
    "real list list \<Rightarrow> real list \<Rightarrow> nat \<Rightarrow> nat \<Rightarrow> LogLikelihoodTypes \<Rightarrow> real list
      \<Rightarrow> real list \<Rightarrow> real"
  cpp_compute_hyperparameter_grad_log_likelihood ::
    "real list list \<Rightarrow> real list \<Rightarrow> nat \<Rightarrow> nat \<Rightarrow> LogLikelihoodTypes \<Rightarrow> real list
      \<Rightarrow> real list \<Rightarrow> real list"
  RandomnessSourceContainer :: "int \<Rightarrow> 'r"
  SetRandomizedUniformGeneratorSeed :: "'r \<Rightarrow> int \<Rightarrow> nat \<Rightarrow> 'r"
  SetRandomizedNormalRNGSeed :: "'r \<Rightarrow> int \<Rightarrow> nat \<Rightarrow> 'r"
  cpp_latin_hypercube :: "ClosedInterval list \<Rightarrow> nat \<Rightarrow> 'r \<Rightarrow> nat \<Rightarrow> real list"
  cpp_gradient_descent ::
    "ClosedInterval list \<Rightarrow> (real list \<Rightarrow> real) \<Rightarrow> (real list \<Rightarrow> real list) \<Rightarrow> real list
      \<Rightarrow> real list"
  cpp_newton ::
    "ClosedInterval list \<Rightarrow> (real list \<Rightarrow> real) \<Rightarrow> (real list \<Rightarrow> real list) \<Rightarrow> real list
      \<Rightarrow> real list"

section \<open>The collaborators' accessors\<close>

text \<open>
  Modelled from the spec: \<open>set_hyperparameters\<close>, \<open>get_hyperparameters\<close> and
  \<open>num_hyperparameters\<close> of the covariance class, which is not part of the module: the
  setter stores the vector in the kernel object, the getter reads it back, and the count is
  the vector's length.
\<close>

definition set_hyperparameters :: "nat \<Rightarrow> real list \<Rightarrow> heap \<Rightarrow> heap" where
  "set_hyperparameters c hp h =
     h\<lparr>covs := (covs h)(c := (covs h c)\<lparr>hyperparameters := hp\<rparr>)\<rparr>"

definition get_hyperparameters :: "nat \<Rightarrow> heap \<Rightarrow> real list" where
  "get_hyperparameters c h = hyperparameters (covs h c)"

definition cov_num_hyperparameters :: "nat \<Rightarrow> heap \<Rightarrow> nat" where
  "cov_num_hyperparameters c h = length (hyperparameters (covs h c))"

section \<open>copy.deepcopy\<close>

text \<open>
  \<open>copy.deepcopy\<close> of a covariance object: a new object at a fresh address with the
  same contents.
\<close>

definition deepcopy_covariance :: "nat \<Rightarrow> heap \<Rightarrow> nat \<times> heap" where
  "deepcopy_covariance c h =
     (next_ref h, h\<lparr>covs := (covs h)(next_ref h := covs h c), next_ref := next_ref h + 1\<rparr>)"

text \<open>
  \<open>copy.deepcopy\<close> of a historical-data object: each array it refers to is copied to a
  fresh address, and the new container refers to the copies. An object reached twice is
  copied once: when the container's \<open>points_sampled_value\<close> and \<open>noise_variance\<close> are
  one and the same array, the copy's two fields are again one array (the address
  \<open>n + 2\<close> then stays unused; addresses are only names).
\<close>

definition deepcopy_historical_data :: "nat \<Rightarrow> heap \<Rightarrow> nat \<times> heap" where
  "deepcopy_historical_data d h =
     (let n = next_ref h; old = hists h d;
          nv = (if noise_variance old = points_sampled_value old then n + 1 else n + 2)
      in
      (n + 3,
       h\<lparr>mats := (mats h)(n := mats h (points_sampled old)),
         vecs := (vecs h)(n + 1 := vecs h (points_sampled_value old),
                          nv := vecs h (noise_variance old)),
         hists := (hists h)(n + 3 := old\<lparr>points_sampled := n,
                                         points_sampled_value := n + 1,
                                         noise_variance := nv\<rparr>),
         next_ref := n + 4\<rparr>))"

section \<open>class LogLikelihood\<close>

text \<open>
  \<open>LogLikelihood.__init__\<close> (lines 183-197): deep copies of both arguments, then the
  kind. The class of the new object is the class whose constructor was called.
\<close>

definition LogLikelihood_init ::
  "evaluator_class \<Rightarrow> nat \<Rightarrow> nat \<Rightarrow> LogLikelihoodTypes \<Rightarrow> heap \<Rightarrow> evaluator \<times> heap" where
  "LogLikelihood_init cls covariance_function historical_data log_likelihood_type h =
     (let (c, h1) = deepcopy_covariance covariance_function h;
          (d, h2) = deepcopy_historical_data historical_data h1
      in (\<lparr>ev_class = cls, ev_covariance = c, ev_historical_data = d,
           ev_log_likelihood_type = log_likelihood_type\<rparr>, h2))"

text \<open>The constructors of the two subclasses (lines 300-302 and 334-336).\<close>

definition LogMarginalLikelihood_init :: "nat \<Rightarrow> nat \<Rightarrow> heap \<Rightarrow> evaluator \<times> heap" where
  "LogMarginalLikelihood_init covariance_function historical_data h =
     LogLikelihood_init LogMarginalLikelihood covariance_function historical_data
       log_marginal_likelihood h"

definition LeaveOneOutLogLikelihood_init :: "nat \<Rightarrow> nat \<Rightarrow> heap \<Rightarrow> evaluator \<times> heap" where
  "LeaveOneOutLogLikelihood_init covariance_function historical_data h =
     LogLikelihood_init LeaveOneOutLogLikelihood covariance_function historical_data
       leave_one_out_log_likelihood h"

text \<open>The properties \<open>dim\<close>, \<open>num_hyperparameters\<close> and \<open>problem_size\<close>.\<close>

definition dim :: "evaluator \<Rightarrow> heap \<Rightarrow> nat" where
  "dim self h = dim_field (hists h (ev_historical_data self))"

definition num_hyperparameters :: "evaluator \<Rightarrow> heap \<Rightarrow> nat" where
  "num_hyperparameters self h = cov_num_hyperparameters (ev_covariance self) h"

definition problem_size :: "evaluator \<Rightarrow> heap \<Rightarrow> nat" where
  "problem_size self h = num_hyperparameters self h"

text \<open>
  \<open>compute_log_likelihood\<close> (lines 214-232): the kernel's hyperparameters are set
  first, then the native function is called on the evaluator's data. The result is the
  value and the store after the call.
\<close>

definition compute_log_likelihood ::
  "'r native \<Rightarrow> evaluator \<Rightarrow> real list \<Rightarrow> heap \<Rightarrow> real \<times> heap" where
  "compute_log_likelihood E self hp h =
     (let h1 = set_hyperparameters (ev_covariance self) hp h;
          hd = hists h1 (ev_historical_data self)
      in (cpp_compute_log_likelihood E
            (mats h1 (points_sampled hd))
            (vecs h1 (points_sampled_value hd))
            (dim self h1)
            (num_sampled hd)
            (ev_log_likelihood_type self)
            hp
            (vecs h1 (noise_variance hd)), h1))"

definition compute_objective_function ::
  "'r native \<Rightarrow> evaluator \<Rightarrow> real list \<Rightarrow> heap \<Rightarrow> real \<times> heap" where
  "compute_objective_function E self current_point h =
     compute_log_likelihood E self current_point h"

text \<open>\<open>compute_grad_log_likelihood\<close> (lines 238-257), of the same shape.\<close>

definition compute_grad_log_likelihood ::
  "'r native \<Rightarrow> evaluator \<Rightarrow> real list \<Rightarrow> heap \<Rightarrow> real list \<times> heap" where
  "compute_grad_log_likelihood E self hp h =
     (let h1 = set_hyperparameters (ev_covariance self) hp h;
          hd = hists h1 (ev_historical_data self)
      in (cpp_compute_hyperparameter_grad_log_likelihood E
            (mats h1 (points_sampled hd))
            (vecs h1 (points_sampled_value hd))
            (dim self h1)
            (num_sampled hd)
            (ev_log_likelihood_type self)
            hp
            (vecs h1 (noise_variance hd)), h1))"

definition compute_grad_objective_function ::
  "'r native \<Rightarrow> evaluator \<Rightarrow> real list \<Rightarrow> heap \<Rightarrow> real list \<times> heap" where
  "compute_grad_objective_function E self current_point h =
     compute_grad_log_likelihood E self current_point h"

text \<open>
  \<open>compute_hessian_log_likelihood\<close>: the base class raises (line 265),
  \<open>LogMarginalLikelihood\<close> inherits the method, \<open>LeaveOneOutLogLikelihood\<close>
  overrides it with a raise of its own (line 340). No branch returns a matrix.
\<close>

definition compute_hessian_log_likelihood ::
  "evaluator \<Rightarrow> real list \<Rightarrow> error + real list list" where
  "compute_hessian_log_likelihood self hp =
     (case ev_class self of
        LeaveOneOutLogLikelihood \<Rightarrow>
          Inl (NotImplementedError
                 ''Currently C++ does not support Hessian computation of LOO-CV.'')
      | _ \<Rightarrow>
          Inl (NotImplementedError
                 ''Currently C++ does not expose Hessian computation of log likelihood-like metrics.''))"

definition compute_hessian_objective_function ::
  "evaluator \<Rightarrow> real list \<Rightarrow> error + real list list" where
  "compute_hessian_objective_function self current_point =
     compute_hessian_log_likelihood self current_point"

section \<open>The native engine\<close>

text \<open>
  The eleven arguments of the call at lines 120-132, in the order the module passes
  them. \<open>ec_status\<close> is the address of the status dict.
\<close>

record 'r engine_call =
  ec_parameters :: HyperparameterOptimizationParameters
  ec_domain :: "ClosedInterval list"
  ec_points_sampled :: "real list list"
  ec_points_sampled_value :: "real list"
  ec_dim :: nat
  ec_num_sampled :: nat
  ec_hyperparameters :: "real list"
  ec_noise_variance :: "real list"
  ec_max_num_threads :: int
  ec_randomness :: 'r
  ec_status :: nat

text \<open>
  The objective and its gradient as the engine evaluates them: the likelihood kind is the
  \<open>objective_type\<close> of the parameters it was handed.
\<close>

definition engine_objective :: "'r native \<Rightarrow> 'r engine_call \<Rightarrow> real list \<Rightarrow> real" where
  "engine_objective E a hp =
     cpp_compute_log_likelihood E (ec_points_sampled a) (ec_points_sampled_value a) (ec_dim a)
       (ec_num_sampled a) (objective_type (ec_parameters a)) hp (ec_noise_variance a)"

definition engine_gradient :: "'r native \<Rightarrow> 'r engine_call \<Rightarrow> real list \<Rightarrow> real list" where
  "engine_gradient E a hp =
     cpp_compute_hyperparameter_grad_log_likelihood E (ec_points_sampled a)
       (ec_points_sampled_value a) (ec_dim a) (ec_num_sampled a)
       (objective_type (ec_parameters a)) hp (ec_noise_variance a)"

text \<open>
  Modelled from the spec: the domain check of the engine, which is not part of the
  module. An interval with \<open>min > max\<close>, or a domain whose length is not the number of
  hyperparameters, is an invalid domain.
\<close>

definition valid_domain :: "ClosedInterval list \<Rightarrow> nat \<Rightarrow> bool" where
  "valid_domain domain n \<longleftrightarrow>
     length domain = n \<and> list_all (\<lambda>i. interval_min i \<le> interval_max i) domain"

text \<open>
  Modelled from the spec: the local optimizers of the engine, which are not part of the
  module. Null search returns the starting point unchanged, gradient ascent is the native
  iteration, and Newton fails with an unsupported operation for LOO-CV. (The spec's
  \<open>improved\<close> flag of a local run is left out: the multistart driver decides
  improvement from the values alone.)
\<close>

definition LocalOptimizer_refine ::
  "'r native \<Rightarrow> 'r engine_call \<Rightarrow> real list \<Rightarrow> error + real list" where
  "LocalOptimizer_refine E a start =
     (case optimizer_type (ec_parameters a) of
        null_optimizer \<Rightarrow> Inr start
      | gradient_descent \<Rightarrow>
          Inr (cpp_gradient_descent E (ec_domain a) (engine_objective E a)
                 (engine_gradient E a) start)
      | newton \<Rightarrow>
          (if objective_type (ec_parameters a) = leave_one_out_log_likelihood
           then Inl UnsupportedOperation
           else Inr (cpp_newton E (ec_domain a) (engine_objective E a)
                       (engine_gradient E a) start)))"

text \<open>
  Every starting point is refined in turn and paired with its value; the first failure
  ends the run.
\<close>

fun refine_all ::
  "'r native \<Rightarrow> 'r engine_call \<Rightarrow> real list list \<Rightarrow> error + (real list \<times> real) list" where
  "refine_all E a [] = Inr []"
| "refine_all E a (s # ss) =
     (case LocalOptimizer_refine E a s of
        Inl e \<Rightarrow> Inl e
      | Inr r \<Rightarrow>
          (case refine_all E a ss of
             Inl e \<Rightarrow> Inl e
           | Inr rs \<Rightarrow> Inr ((r, engine_objective E a r) # rs)))"

text \<open>
  The maximizer of a sequence of (point, value) pairs, the first found in iteration order
  on a tie: a later pair replaces the best so far only when its value is strictly greater.
\<close>

fun select_best :: "real list \<times> real \<Rightarrow> (real list \<times> real) list \<Rightarrow> real list \<times> real" where
  "select_best b [] = b"
| "select_best b (c # cs) = select_best (if snd b < snd c then c else b) cs"

text \<open>The Latin-Hypercube starting points, \<open>num_multistarts\<close> of them.\<close>

definition initial_guesses :: "'r native \<Rightarrow> 'r engine_call \<Rightarrow> real list list" where
  "initial_guesses E a =
     (let k = nat (num_multistarts (ec_parameters a)) in
      map (cpp_latin_hypercube E (ec_domain a) k (ec_randomness a)) [0..<k])"

text \<open>
  Modelled from the spec: \<open>C_GP.multistart_hyperparameter_optimization\<close>, the native
  driver, which is not part of the module. An invalid domain and a configuration without
  starting points fail before any work; the starting points are sampled and refined, the
  best refined point is selected, its value is compared with the value at the first
  starting point, the flag \<open>found_improvement\<close> is written to the status dict, and the
  result is the best point if it improves and the first starting point otherwise. (The
  partition over threads is not modelled: the spec fixes the outcome by iteration
  order.)
\<close>

definition C_GP_multistart_hyperparameter_optimization ::
  "'r native \<Rightarrow> 'r engine_call \<Rightarrow> heap \<Rightarrow> (error + real list) \<times> heap" where
  "C_GP_multistart_hyperparameter_optimization E a h =
     (if \<not> valid_domain (ec_domain a) (length (ec_hyperparameters a))
      then (Inl InvalidDomain, h)
      else
        (case initial_guesses E a of
           [] \<Rightarrow> (Inl ConfigurationError, h)
         | first # rest \<Rightarrow>
             (case refine_all E a (first # rest) of
                Inl e \<Rightarrow> (Inl e, h)
              | Inr [] \<Rightarrow> (Inl ConfigurationError, h)
              | Inr (c # cs) \<Rightarrow>
                  (let best = select_best c cs;
                       found = (engine_objective E a first < snd best);
                       result = (if found then fst best else first)
                   in (Inr result,
                       h\<lparr>dicts := (dicts h)(ec_status a :=
                            (dicts h (ec_status a))(''found_improvement'' \<mapsto> found))\<rparr>)))))"

text \<open>
  Modelled from the spec: \<open>C_GP.evaluate_log_likelihood_at_hyperparameter_list\<close>, the
  native batch evaluation, which is not part of the module: an independent evaluation of
  the likelihood at each of the \<open>num_to_eval\<close> supplied points. The arguments are those
  of lines 157-166.
\<close>

definition C_GP_evaluate_log_likelihood_at_hyperparameter_list ::
  "'r native \<Rightarrow> real list list \<Rightarrow> real list list \<Rightarrow> real list \<Rightarrow> nat \<Rightarrow> nat
     \<Rightarrow> LogLikelihoodTypes \<Rightarrow> real list \<Rightarrow> real list \<Rightarrow> nat \<Rightarrow> int \<Rightarrow> real list" where
  "C_GP_evaluate_log_likelihood_at_hyperparameter_list E hyperparameters_to_evaluate ps psv d n
       kind current nv num_to_eval max_num_threads =
     map (\<lambda>hp. cpp_compute_log_likelihood E ps psv d n kind hp nv)
       (take num_to_eval hyperparameters_to_evaluate)"

section \<open>The module's functions\<close>

text \<open>
  The loop of lines 105-107: one interval \<open>[-2, 1]\<close> is appended per hyperparameter.
\<close>

fun append_default_intervals :: "nat \<Rightarrow> ClosedInterval list \<Rightarrow> ClosedInterval list" where
  "append_default_intervals 0 domain = domain"
| "append_default_intervals (Suc k) domain =
     append_default_intervals k (domain @ [ClosedInterval (- 2) 1])"

text \<open>
  \<open>multistart_hyperparameter_optimization\<close>, lines 103-119 and the argument list of
  lines 120-132: the defaults for a missing (or empty) domain, missing randomness and a
  missing status dict, then the assignment to the \<open>objective_type\<close> of the caller's
  parameter object at address \<open>p\<close>. \<open>entropy\<close> stands for the time and thread id
  the seed setters read. The result is the argument list of the native call and the store
  at that moment.
\<close>

definition multistart_call_arguments ::
  "'r native \<Rightarrow> evaluator \<Rightarrow> nat \<Rightarrow> ClosedInterval list option \<Rightarrow> 'r option \<Rightarrow> int
     \<Rightarrow> nat option \<Rightarrow> nat \<Rightarrow> heap \<Rightarrow> 'r engine_call \<times> heap" where
  "multistart_call_arguments E log_likelihood_evaluator p hyperparameter_domain randomness
       max_num_threads status entropy h =
     (let domain =
            (case hyperparameter_domain of
               None \<Rightarrow> append_default_intervals (num_hyperparameters log_likelihood_evaluator h) []
             | Some d \<Rightarrow>
                 if d = []
                 then append_default_intervals (num_hyperparameters log_likelihood_evaluator h) []
                 else d);
          rnd =
            (case randomness of
               None \<Rightarrow>
                 SetRandomizedNormalRNGSeed E
                   (SetRandomizedUniformGeneratorSeed E
                      (RandomnessSourceContainer E max_num_threads) 0 entropy) 0 entropy
             | Some r \<Rightarrow> r);
          (s, h1) =
            (case status of
               None \<Rightarrow>
                 (next_ref h,
                  h\<lparr>dicts := (dicts h)(next_ref h := Map.empty), next_ref := next_ref h + 1\<rparr>)
             | Some s \<Rightarrow> (s, h));
          h2 = h1\<lparr>params := (params h1)(p := (params h1 p)
                  \<lparr>objective_type := ev_log_likelihood_type log_likelihood_evaluator\<rparr>)\<rparr>;
          hd = hists h2 (ev_historical_data log_likelihood_evaluator)
      in (\<lparr>ec_parameters = params h2 p,
           ec_domain = domain,
           ec_points_sampled = mats h2 (points_sampled hd),
           ec_points_sampled_value = vecs h2 (points_sampled_value hd),
           ec_dim = dim_field hd,
           ec_num_sampled = num_sampled hd,
           ec_hyperparameters =
             get_hyperparameters (ev_covariance log_likelihood_evaluator) h2,
           ec_noise_variance = vecs h2 (noise_variance hd),
           ec_max_num_threads = max_num_threads,
           ec_randomness = rnd,
           ec_status = s\<rparr>, h2))"

text \<open>
  The whole function: the native call on those arguments. The value returned to the
  caller is the hyperparameter vector alone (or the exception), next to the store the call
  leaves behind.
\<close>

definition multistart_hyperparameter_optimization ::
  "'r native \<Rightarrow> evaluator \<Rightarrow> nat \<Rightarrow> ClosedInterval list option \<Rightarrow> 'r option \<Rightarrow> int
     \<Rightarrow> nat option \<Rightarrow> nat \<Rightarrow> heap \<Rightarrow> (error + real list) \<times> heap" where
  "multistart_hyperparameter_optimization E log_likelihood_evaluator p hyperparameter_domain
       randomness max_num_threads status entropy h =
     (let (a, h2) = multistart_call_arguments E log_likelihood_evaluator p
                      hyperparameter_domain randomness max_num_threads status entropy h
      in C_GP_multistart_hyperparameter_optimization E a h2)"

text \<open>
  \<open>evaluate_log_likelihood_at_hyperparameter_list\<close> (lines 136-168): one native call;
  \<open>shape[0]\<close> of the input is its number of rows. The function writes nothing.
\<close>

definition evaluate_log_likelihood_at_hyperparameter_list ::
  "'r native \<Rightarrow> evaluator \<Rightarrow> real list list \<Rightarrow> int \<Rightarrow> heap \<Rightarrow> real list" where
  "evaluate_log_likelihood_at_hyperparameter_list E log_likelihood_evaluator
       hyperparameters_to_evaluate max_num_threads h =
     (let hd = hists h (ev_historical_data log_likelihood_evaluator) in
      C_GP_evaluate_log_likelihood_at_hyperparameter_list E
        hyperparameters_to_evaluate
        (mats h (points_sampled hd))
        (vecs h (points_sampled_value hd))
        (dim_field hd)
        (num_sampled hd)
        (ev_log_likelihood_type log_likelihood_evaluator)
        (get_hyperparameters (ev_covariance log_likelihood_evaluator) h)
        (vecs h (noise_variance hd))
        (length hyperparameters_to_evaluate)
        max_num_threads)"

section \<open>Auxiliary notions for the properties\<close>

text \<open>
  The spec's reading of batch evaluation, \<open>[compute(h1), ..., compute(hn)]\<close>: the
  evaluator's \<open>compute_log_likelihood\<close> called on each vector in turn, every call
  starting from the store the previous one left.
\<close>

fun compute_each ::
  "'r native \<Rightarrow> evaluator \<Rightarrow> real list list \<Rightarrow> heap \<Rightarrow> real list \<times> heap" where
  "compute_each E self [] h = ([], h)"
| "compute_each E self (hp # hps) h =
     (let (v, h1) = compute_log_likelihood E self hp h;
          (vs, h2) = compute_each E self hps h1
      in (v # vs, h2))"

text \<open>
  What a caller can do to objects it holds: overwrite the contents of a covariance
  object, of a historical-data object, or of an array.
\<close>

datatype caller_write =
    WriteCov nat Covariance
  | WriteHist nat HistoricalData
  | WriteVec nat "real list"
  | WriteMat nat "real list list"

fun write_addr :: "caller_write \<Rightarrow> nat" where
  "write_addr (WriteCov a v) = a"
| "write_addr (WriteHist a v) = a"
| "write_addr (WriteVec a v) = a"
| "write_addr (WriteMat a v) = a"

fun apply_write :: "caller_write \<Rightarrow> heap \<Rightarrow> heap" where
  "apply_write (WriteCov a v) h = h\<lparr>covs := (covs h)(a := v)\<rparr>"
| "apply_write (WriteHist a v) h = h\<lparr>hists := (hists h)(a := v)\<rparr>"
| "apply_write (WriteVec a v) h = h\<lparr>vecs := (vecs h)(a := v)\<rparr>"
| "apply_write (WriteMat a v) h = h\<lparr>mats := (mats h)(a := v)\<rparr>"

definition apply_writes :: "caller_write list \<Rightarrow> heap \<Rightarrow> heap" where
  "apply_writes ws h = fold apply_write ws h"

section \<open>A small instance\<close>

text \<open>
  A store with one kernel (address 3, two hyperparameters), one data set of three points in
  one dimension (address 4, its arrays at 0, 1 and 2) and one parameter object asking for a
  null search from three starting points; a native layer whose likelihood is the sum of the
  observed values minus the sum of the hyperparameters, whose seed is the base seed plus the
  environment's contribution, and whose sampler shifts the i-th point by the seed.
\<close>

definition example_heap :: heap where
  "example_heap =
     \<lparr>covs = (\<lambda>a. \<lparr>hyperparameters = [1, 2]\<rparr>),
      hists = (\<lambda>a. \<lparr>dim_field = 1, num_sampled = 3, points_sampled = 0,
                      points_sampled_value = 1, noise_variance = 2\<rparr>),
      vecs = (\<lambda>a. if a = 1 then [0, 1, 0] else [1, 1, 1]),
      mats = (\<lambda>a. [[0], [1], [2]]),
      params = (\<lambda>a. \<lparr>objective_type = leave_one_out_log_likelihood,
                       optimizer_type = null_optimizer, num_multistarts = 3\<rparr>),
      dicts = (\<lambda>a. Map.empty),
      next_ref = 5\<rparr>"

definition example_native :: "nat native" where
  "example_native =
     \<lparr>cpp_compute_log_likelihood = (\<lambda>ps psv d n k hp nv. sum_list psv - sum_list hp),
      cpp_compute_hyperparameter_grad_log_likelihood =
        (\<lambda>ps psv d n k hp nv. map (\<lambda>x. - 1) hp),
      RandomnessSourceContainer = (\<lambda>t. 0),
      SetRandomizedUniformGeneratorSeed = (\<lambda>r s e. nat s + e),
      SetRandomizedNormalRNGSeed = (\<lambda>r s e. r),
      cpp_latin_hypercube = (\<lambda>dm k r i. [real (r + i), real (r + i)]),
      cpp_gradient_descent = (\<lambda>dm f g s. s),
      cpp_newton = (\<lambda>dm f g s. s)\<rparr>"

definition example_evaluator :: evaluator where
  "example_evaluator =
     \<lparr>ev_class = LogMarginalLikelihood, ev_covariance = 3, ev_historical_data = 4,
      ev_log_likelihood_type = log_marginal_likelihood\<rparr>"

definition example_writes :: "caller_write list" where
  "example_writes =
     [WriteCov 3 \<lparr>hyperparameters = [7]\<rparr>,
      WriteVec 1 [5, 5, 5],
      WriteMat 0 [],
      WriteHist 4 \<lparr>dim_field = 9, num_sampled = 0, points_sampled = 0,
                   points_sampled_value = 2, noise_variance = 1\<rparr>]"

section \<open>Frame lemmas\<close>

lemma append_default_intervals_replicate:
  "append_default_intervals k domain = domain @ replicate k (ClosedInterval (- 2) 1)"
proof (induction k arbitrary: domain)
  case 0
  show ?case by simp
next
  case (Suc k)
  show ?case by (simp add: Suc.IH replicate_app_Cons_same)
qed

lemma engine_frame:
  "params (snd (C_GP_multistart_hyperparameter_optimization E a h)) = params h"
  "covs (snd (C_GP_multistart_hyperparameter_optimization E a h)) = covs h"
  "hists (snd (C_GP_multistart_hyperparameter_optimization E a h)) = hists h"
  "vecs (snd (C_GP_multistart_hyperparameter_optimization E a h)) = vecs h"
  "mats (snd (C_GP_multistart_hyperparameter_optimization E a h)) = mats h"
  "next_ref (snd (C_GP_multistart_hyperparameter_optimization E a h)) = next_ref h"
  by (simp_all add: C_GP_multistart_hyperparameter_optimization_def Let_def
      split: list.splits sum.splits)

lemma engine_dicts:
  "dicts (snd (C_GP_multistart_hyperparameter_optimization E a h)) =
     (dicts h)(ec_status a :=
        dicts (snd (C_GP_multistart_hyperparameter_optimization E a h)) (ec_status a))"
  by (auto simp add: C_GP_multistart_hyperparameter_optimization_def Let_def
      split: list.splits sum.splits)

lemma engine_reports:
  "fst (C_GP_multistart_hyperparameter_optimization E a h) = Inr v \<Longrightarrow>
     \<exists>b. dicts (snd (C_GP_multistart_hyperparameter_optimization E a h)) (ec_status a)
            ''found_improvement'' = Some b"
  by (auto simp add: C_GP_multistart_hyperparameter_optimization_def Let_def
      split: list.splits sum.splits if_splits)

lemma set_hyperparameters_frame:
  "hists (set_hyperparameters c hp h) = hists h"
  "vecs (set_hyperparameters c hp h) = vecs h"
  "mats (set_hyperparameters c hp h) = mats h"
  "params (set_hyperparameters c hp h) = params h"
  "dicts (set_hyperparameters c hp h) = dicts h"
  "next_ref (set_hyperparameters c hp h) = next_ref h"
  by (simp_all add: set_hyperparameters_def)

lemma get_set_hyperparameters:
  "get_hyperparameters c (set_hyperparameters c hp h) = hp"
  by (simp add: get_hyperparameters_def set_hyperparameters_def)

lemma compute_log_likelihood_heap:
  "snd (compute_log_likelihood E self hp h) = set_hyperparameters (ev_covariance self) hp h"
  by (simp add: compute_log_likelihood_def Let_def)

lemma compute_grad_log_likelihood_heap:
  "snd (compute_grad_log_likelihood E self hp h) =
     set_hyperparameters (ev_covariance self) hp h"
  by (simp add: compute_grad_log_likelihood_def Let_def)

lemma compute_log_likelihood_value:
  "fst (compute_log_likelihood E self hp h) =
     cpp_compute_log_likelihood E
       (mats h (points_sampled (hists h (ev_historical_data self))))
       (vecs h (points_sampled_value (hists h (ev_historical_data self))))
       (dim_field (hists h (ev_historical_data self)))
       (num_sampled (hists h (ev_historical_data self)))
       (ev_log_likelihood_type self) hp
       (vecs h (noise_variance (hists h (ev_historical_data self))))"
  by (simp add: compute_log_likelihood_def Let_def dim_def set_hyperparameters_frame)

lemma compute_grad_log_likelihood_value:
  "fst (compute_grad_log_likelihood E self hp h) =
     cpp_compute_hyperparameter_grad_log_likelihood E
       (mats h (points_sampled (hists h (ev_historical_data self))))
       (vecs h (points_sampled_value (hists h (ev_historical_data self))))
       (dim_field (hists h (ev_historical_data self)))
       (num_sampled (hists h (ev_historical_data self)))
       (ev_log_likelihood_type self) hp
       (vecs h (noise_variance (hists h (ev_historical_data self))))"
  by (simp add: compute_grad_log_likelihood_def Let_def dim_def set_hyperparameters_frame)

lemma compute_each_values:
  "fst (compute_each E self hps h) =
     map (\<lambda>hp. cpp_compute_log_likelihood E
       (mats h (points_sampled (hists h (ev_historical_data self))))
       (vecs h (points_sampled_value (hists h (ev_historical_data self))))
       (dim_field (hists h (ev_historical_data self)))
       (num_sampled (hists h (ev_historical_data self)))
       (ev_log_likelihood_type self) hp
       (vecs h (noise_variance (hists h (ev_historical_data self))))) hps"
proof (induction hps arbitrary: h)
  case Nil
  show ?case by simp
next
  case (Cons hp hps)
  have step: "compute_log_likelihood E self hp h =
      (fst (compute_log_likelihood E self hp h), set_hyperparameters (ev_covariance self) hp h)"
    by (metis compute_log_likelihood_heap prod.collapse)
  show ?case
    by (subst compute_each.simps, subst step)
       (simp add: Let_def split_beta Cons.IH set_hyperparameters_frame
          compute_log_likelihood_value)
qed

lemma apply_writes_frame:
  assumes "list_all (\<lambda>w. write_addr w < n) ws" and "n \<le> a"
  shows "covs (apply_writes ws h) a = covs h a"
    and "hists (apply_writes ws h) a = hists h a"
    and "vecs (apply_writes ws h) a = vecs h a"
    and "mats (apply_writes ws h) a = mats h a"
proof -
  have "covs (fold apply_write ws h) a = covs h a \<and>
        hists (fold apply_write ws h) a = hists h a \<and>
        vecs (fold apply_write ws h) a = vecs h a \<and>
        mats (fold apply_write ws h) a = mats h a"
    using assms
  proof (induction ws arbitrary: h)
    case Nil
    show ?case by simp
  next
    case (Cons w ws)
    from Cons.prems have lt: "write_addr w < n" and rest: "list_all (\<lambda>w. write_addr w < n) ws"
      by simp_all
    have one: "covs (apply_write w h) a = covs h a \<and> hists (apply_write w h) a = hists h a \<and>
               vecs (apply_write w h) a = vecs h a \<and> mats (apply_write w h) a = mats h a"
      using lt Cons.prems(2) by (cases w) auto
    show ?case using Cons.IH [OF rest Cons.prems(2), of "apply_write w h"] one by simp
  qed
  then show "covs (apply_writes ws h) a = covs h a"
    and "hists (apply_writes ws h) a = hists h a"
    and "vecs (apply_writes ws h) a = vecs h a"
    and "mats (apply_writes ws h) a = mats h a"
    by (simp_all add: apply_writes_def)
qed

lemma LogLikelihood_init_refs:
  "ev_covariance (fst (LogLikelihood_init cls c d k h)) = next_ref h"
  "ev_historical_data (fst (LogLikelihood_init cls c d k h)) = next_ref h + 4"
  "ev_log_likelihood_type (fst (LogLikelihood_init cls c d k h)) = k"
  "ev_class (fst (LogLikelihood_init cls c d k h)) = cls"
  by (simp_all add: LogLikelihood_init_def deepcopy_covariance_def
      deepcopy_historical_data_def Let_def)

lemma LogLikelihood_init_hist:
  "points_sampled (hists (snd (LogLikelihood_init cls c d k h)) (next_ref h + 4)) =
     next_ref h + 1"
  "points_sampled_value (hists (snd (LogLikelihood_init cls c d k h)) (next_ref h + 4)) =
     next_ref h + 2"
  "noise_variance (hists (snd (LogLikelihood_init cls c d k h)) (next_ref h + 4)) =
     (if noise_variance (hists h d) = points_sampled_value (hists h d)
      then next_ref h + 2 else next_ref h + 3)"
  by (simp_all add: LogLikelihood_init_def deepcopy_covariance_def
      deepcopy_historical_data_def Let_def)

lemma LogLikelihood_init_contents:
  "covs (snd (LogLikelihood_init cls c d k h)) (next_ref h) = covs h c"
  "dim_field (hists (snd (LogLikelihood_init cls c d k h)) (next_ref h + 4)) =
     dim_field (hists h d)"
  "num_sampled (hists (snd (LogLikelihood_init cls c d k h)) (next_ref h + 4)) =
     num_sampled (hists h d)"
  "mats (snd (LogLikelihood_init cls c d k h)) (next_ref h + 1) =
     mats h (points_sampled (hists h d))"
  "vecs (snd (LogLikelihood_init cls c d k h)) (next_ref h + 2) =
     vecs h (points_sampled_value (hists h d))"
  "vecs (snd (LogLikelihood_init cls c d k h))
     (if noise_variance (hists h d) = points_sampled_value (hists h d)
      then next_ref h + 2 else next_ref h + 3) =
     vecs h (noise_variance (hists h d))"
  by (simp_all add: LogLikelihood_init_def deepcopy_covariance_def
      deepcopy_historical_data_def Let_def)

lemma LogLikelihood_init_frame:
  "a < next_ref h \<Longrightarrow> covs (snd (LogLikelihood_init cls c d k h)) a = covs h a"
  "a < next_ref h \<Longrightarrow> hists (snd (LogLikelihood_init cls c d k h)) a = hists h a"
  "a < next_ref h \<Longrightarrow> vecs (snd (LogLikelihood_init cls c d k h)) a = vecs h a"
  "a < next_ref h \<Longrightarrow> mats (snd (LogLikelihood_init cls c d k h)) a = mats h a"
  by (simp_all add: LogLikelihood_init_def deepcopy_covariance_def
      deepcopy_historical_data_def Let_def)

lemma refine_all_length:
  "refine_all E a ss = Inr cs \<Longrightarrow> length cs = length ss"
proof (induction ss arbitrary: cs)
  case Nil
  then show ?case by simp
next
  case (Cons s ss)
  then show ?case by (auto split: sum.splits)
qed

lemma select_best_bounded:
  "snd b \<le> v \<Longrightarrow> \<forall>c \<in> set cs. snd c \<le> v \<Longrightarrow> snd (select_best b cs) \<le> v"
  by (induction cs arbitrary: b) auto

section \<open>The small instance, evaluated\<close>

lemma example_fields:
  "ec_domain (fst (multistart_call_arguments example_native example_evaluator 0 None None 1 st e
      example_heap)) = [ClosedInterval (- 2) 1, ClosedInterval (- 2) 1]"
  "ec_hyperparameters (fst (multistart_call_arguments example_native example_evaluator 0 None
      None 1 st e example_heap)) = [1, 2]"
  "ec_parameters (fst (multistart_call_arguments example_native example_evaluator 0 None None 1
      st e example_heap)) =
     \<lparr>objective_type = log_marginal_likelihood, optimizer_type = null_optimizer,
      num_multistarts = 3\<rparr>"
  "ec_points_sampled_value (fst (multistart_call_arguments example_native example_evaluator 0
      None None 1 st e example_heap)) = [0, 1, 0]"
  "ec_randomness (fst (multistart_call_arguments example_native example_evaluator 0 None None 1
      st e example_heap)) = e"
  "ec_status (fst (multistart_call_arguments example_native example_evaluator 0 None None 1
      st e example_heap)) = (case st of None \<Rightarrow> 5 | Some s \<Rightarrow> s)"
  by (simp_all add: multistart_call_arguments_def example_heap_def example_evaluator_def
      example_native_def Let_def num_hyperparameters_def cov_num_hyperparameters_def
      get_hyperparameters_def eval_nat_numeral split: option.splits)

lemma example_objective:
  "engine_objective example_native
     (fst (multistart_call_arguments example_native example_evaluator 0 None None 1 st e
        example_heap)) hp = 1 - sum_list hp"
  by (simp add: engine_objective_def example_fields) (simp add: example_native_def)

lemma example_guesses:
  "initial_guesses example_native
     (fst (multistart_call_arguments example_native example_evaluator 0 None None 1 st e
        example_heap)) =
   [real e, real e] # [[real e + 1, real e + 1], [real e + 2, real e + 2]]"
proof -
  have u: "[0..<3] = [0, 1, 2::nat]" by (simp add: upt_rec)
  show ?thesis
    by (simp add: initial_guesses_def example_fields Let_def u) (simp add: example_native_def)
qed

lemma example_candidates:
  "refine_all example_native
     (fst (multistart_call_arguments example_native example_evaluator 0 None None 1 st e
        example_heap))
     ([real e, real e] # [[real e + 1, real e + 1], [real e + 2, real e + 2]]) =
   Inr [([real e, real e], 1 - 2 * real e),
        ([real e + 1, real e + 1], - 1 - 2 * real e),
        ([real e + 2, real e + 2], - 3 - 2 * real e)]"
  by (simp add: LocalOptimizer_refine_def example_fields example_objective)

lemma example_valid_domain:
  "valid_domain
     (ec_domain (fst (multistart_call_arguments example_native example_evaluator 0 None None 1
        st e example_heap)))
     (length (ec_hyperparameters (fst (multistart_call_arguments example_native
        example_evaluator 0 None None 1 st e example_heap))))"
  by (simp add: example_fields valid_domain_def)

lemma example_result:
  "fst (multistart_hyperparameter_optimization example_native example_evaluator 0 None None 1
          st e example_heap) = Inr [real e, real e]"
  by (simp add: multistart_hyperparameter_optimization_def split_beta
      C_GP_multistart_hyperparameter_optimization_def example_valid_domain example_guesses
      example_candidates example_objective Let_def del: refine_all.simps)

section \<open>The properties\<close>

text \<open>
  C1, as stated, fails: an evaluator built by the constructor of \<open>LogMarginalLikelihood\<close>
  has the kind LML, and both Hessian methods raise on it.
\<close>

theorem C1_hessian_LML_counterexample:
  "ev_log_likelihood_type (fst (LogMarginalLikelihood_init 3 4 example_heap)) =
     log_marginal_likelihood \<and>
   isl (compute_hessian_log_likelihood (fst (LogMarginalLikelihood_init 3 4 example_heap))
          [1, 2]) \<and>
   isl (compute_hessian_objective_function (fst (LogMarginalLikelihood_init 3 4 example_heap))
          [1, 2])"
  by (simp add: LogMarginalLikelihood_init_def LogLikelihood_init_refs
      compute_hessian_objective_function_def compute_hessian_log_likelihood_def)

text \<open>
  C1, amended: the Hessian is not supported for LML either. For every hyperparameter
  vector, \<open>compute_hessian_log_likelihood\<close> and \<open>compute_hessian_objective_function\<close>
  on a \<open>LogMarginalLikelihood\<close> evaluator (and on a plain \<open>LogLikelihood\<close> evaluator of
  kind LML) raise \<open>NotImplementedError\<close> with the message of the base class.
\<close>

theorem C1_hessian_raises_for_LML:
  "compute_hessian_log_likelihood (fst (LogMarginalLikelihood_init c d h)) hp =
     Inl (NotImplementedError
       ''Currently C++ does not expose Hessian computation of log likelihood-like metrics.'') \<and>
   compute_hessian_objective_function (fst (LogMarginalLikelihood_init c d h)) hp =
     Inl (NotImplementedError
       ''Currently C++ does not expose Hessian computation of log likelihood-like metrics.'') \<and>
   compute_hessian_log_likelihood
       (fst (LogLikelihood_init LogLikelihood c d log_marginal_likelihood h)) hp =
     Inl (NotImplementedError
       ''Currently C++ does not expose Hessian computation of log likelihood-like metrics.'')"
  by (simp add: LogMarginalLikelihood_init_def LogLikelihood_init_refs
      compute_hessian_objective_function_def compute_hessian_log_likelihood_def)

text \<open>
  C2: for every hyperparameter vector, \<open>compute_hessian_log_likelihood\<close> on a
  \<open>LeaveOneOutLogLikelihood\<close> evaluator raises \<open>NotImplementedError\<close>; it returns no
  value, and the wrapper \<open>compute_hessian_objective_function\<close> raises the same error.
\<close>

theorem C2_hessian_LOO_raises:
  assumes "ev_class self = LeaveOneOutLogLikelihood"
  shows "compute_hessian_log_likelihood self hp =
           Inl (NotImplementedError
             ''Currently C++ does not support Hessian computation of LOO-CV.'') \<and>
         compute_hessian_objective_function self hp =
           Inl (NotImplementedError
             ''Currently C++ does not support Hessian computation of LOO-CV.'')"
  using assms
  by (simp add: compute_hessian_objective_function_def compute_hessian_log_likelihood_def)

text \<open>
  C2 at an evaluator built by the constructor of \<open>LeaveOneOutLogLikelihood\<close>.
\<close>

theorem C2_hessian_LOO_raises_witness:
  "compute_hessian_log_likelihood (fst (LeaveOneOutLogLikelihood_init 3 4 example_heap)) [1, 2] =
     Inl (NotImplementedError ''Currently C++ does not support Hessian computation of LOO-CV.'') \<and>
   compute_hessian_objective_function (fst (LeaveOneOutLogLikelihood_init 3 4 example_heap))
       [1, 2] =
     Inl (NotImplementedError ''Currently C++ does not support Hessian computation of LOO-CV.'')"
proof -
  have cls: "ev_class (fst (LeaveOneOutLogLikelihood_init 3 4 example_heap)) =
      LeaveOneOutLogLikelihood"
    by (simp add: LeaveOneOutLogLikelihood_init_def LogLikelihood_init_refs)
  show ?thesis by (rule C2_hessian_LOO_raises [OF cls])
qed

text \<open>
  C3: in a call of \<open>multistart_hyperparameter_optimization\<close> that reaches the
  comparison (the domain is valid, there is a first Latin-Hypercube point, the local runs
  give candidates) and in which no candidate has a greater value than the first initial
  guess, the function returns exactly that first point, no error is raised, and the status
  dict handed to the engine holds \<open>found_improvement = False\<close>.
\<close>

theorem C3_no_improvement_returns_first_guess:
  assumes args: "multistart_call_arguments E ev p dm rnd t st e h = (a, h2)"
      and dom: "valid_domain (ec_domain a) (length (ec_hyperparameters a))"
      and starts: "initial_guesses E a = first # rest"
      and cands: "refine_all E a (first # rest) = Inr cands"
      and worse: "\<forall>c \<in> set cands. snd c \<le> engine_objective E a first"
  shows "fst (multistart_hyperparameter_optimization E ev p dm rnd t st e h) = Inr first \<and>
         dicts (snd (multistart_hyperparameter_optimization E ev p dm rnd t st e h))
           (ec_status a) ''found_improvement'' = Some False"
proof -
  from refine_all_length [OF cands] obtain c cs where cc: "cands = c # cs"
    by (cases cands) auto
  from worse cc have "snd (select_best c cs) \<le> engine_objective E a first"
    by (intro select_best_bounded) auto
  then have nf: "\<not> engine_objective E a first < snd (select_best c cs)" by simp
  show ?thesis
    by (simp add: multistart_hyperparameter_optimization_def args
        C_GP_multistart_hyperparameter_optimization_def dom starts cands cc nf Let_def
        del: refine_all.simps)
qed

text \<open>
  C3 on the small instance: three starting points, the first of them the best; the caller's
  status dict is at address 7.
\<close>

theorem C3_no_improvement_returns_first_guess_witness:
  "fst (multistart_hyperparameter_optimization example_native example_evaluator 0 None None 1
          (Some 7) 0 example_heap) = Inr [0, 0] \<and>
   dicts (snd (multistart_hyperparameter_optimization example_native example_evaluator 0 None
          None 1 (Some 7) 0 example_heap)) 7 ''found_improvement'' = Some False"
proof -
  let ?a = "fst (multistart_call_arguments example_native example_evaluator 0 None None 1
                   (Some 7) 0 example_heap)"
  have args: "multistart_call_arguments example_native example_evaluator 0 None None 1 (Some 7)
      0 example_heap = (?a, snd (multistart_call_arguments example_native example_evaluator 0
      None None 1 (Some 7) 0 example_heap))"
    by simp
  have starts: "initial_guesses example_native ?a = [0, 0] # [[1, 1], [2, 2]]"
    using example_guesses [of "Some 7" 0] by simp
  have cands: "refine_all example_native ?a ([0, 0] # [[1, 1], [2, 2]]) =
      Inr [([0, 0], 1), ([1, 1], - 1), ([2, 2], - 3)]"
    using example_candidates [of "Some 7" 0] by simp
  have worse: "\<forall>c \<in> set [([0, 0], 1), ([1, 1], - 1), ([2, 2], - 3 :: real)].
      snd c \<le> engine_objective example_native ?a [0, 0]"
    by (simp add: example_objective)
  show ?thesis
    using C3_no_improvement_returns_first_guess [OF args example_valid_domain starts cands worse]
    by (simp add: example_fields)
qed

text \<open>
  C4: without a \<open>hyperparameter_domain\<close>, the domain among the arguments of the native
  call is the interval \<open>[-2, 1]\<close> once per hyperparameter of the evaluator, and the
  function is the native call on those arguments.
\<close>

theorem C4_default_domain:
  "ec_domain (fst (multistart_call_arguments E ev p None rnd t st e h)) =
     replicate (num_hyperparameters ev h) (ClosedInterval (- 2) 1) \<and>
   multistart_hyperparameter_optimization E ev p None rnd t st e h =
     C_GP_multistart_hyperparameter_optimization E
       (fst (multistart_call_arguments E ev p None rnd t st e h))
       (snd (multistart_call_arguments E ev p None rnd t st e h))"
  by (simp add: multistart_hyperparameter_optimization_def split_beta)
     (simp add: multistart_call_arguments_def Let_def append_default_intervals_replicate
      split: option.splits prod.splits)

text \<open>
  C5: the constructor takes private deep copies of both arguments. The evaluator's
  covariance object, its historical-data object and the three arrays of the latter are new
  objects (at addresses no object had before the construction) that hold what the caller's
  covariance, data set and arrays held at the construction, and the construction leaves the
  caller's objects as they were. Whatever the caller writes afterwards to objects that
  existed before the construction (its covariance object, its historical-data object, their
  arrays), the values of \<open>compute_log_likelihood\<close> and \<open>compute_grad_log_likelihood\<close>
  and the properties \<open>dim\<close> and \<open>num_hyperparameters\<close> of the evaluator are the same
  as without those writes: they are the values for the caller's data as it was at the
  construction.
\<close>

theorem C5_private_copies:
  assumes "list_all (\<lambda>w. write_addr w < next_ref h) ws"
  shows "fst (compute_log_likelihood E (fst (LogLikelihood_init cls c d k h)) hp
                (apply_writes ws (snd (LogLikelihood_init cls c d k h)))) =
         fst (compute_log_likelihood E (fst (LogLikelihood_init cls c d k h)) hp
                (snd (LogLikelihood_init cls c d k h))) \<and>
         fst (compute_grad_log_likelihood E (fst (LogLikelihood_init cls c d k h)) hp
                (apply_writes ws (snd (LogLikelihood_init cls c d k h)))) =
         fst (compute_grad_log_likelihood E (fst (LogLikelihood_init cls c d k h)) hp
                (snd (LogLikelihood_init cls c d k h))) \<and>
         dim (fst (LogLikelihood_init cls c d k h))
             (apply_writes ws (snd (LogLikelihood_init cls c d k h))) =
         dim (fst (LogLikelihood_init cls c d k h)) (snd (LogLikelihood_init cls c d k h)) \<and>
         num_hyperparameters (fst (LogLikelihood_init cls c d k h))
             (apply_writes ws (snd (LogLikelihood_init cls c d k h))) =
         num_hyperparameters (fst (LogLikelihood_init cls c d k h))
             (snd (LogLikelihood_init cls c d k h)) \<and>
         fst (compute_log_likelihood E (fst (LogLikelihood_init cls c d k h)) hp
                (apply_writes ws (snd (LogLikelihood_init cls c d k h)))) =
         cpp_compute_log_likelihood E
           (mats h (points_sampled (hists h d)))
           (vecs h (points_sampled_value (hists h d)))
           (dim_field (hists h d)) (num_sampled (hists h d)) k hp
           (vecs h (noise_variance (hists h d))) \<and>
         fst (compute_grad_log_likelihood E (fst (LogLikelihood_init cls c d k h)) hp
                (apply_writes ws (snd (LogLikelihood_init cls c d k h)))) =
         cpp_compute_hyperparameter_grad_log_likelihood E
           (mats h (points_sampled (hists h d)))
           (vecs h (points_sampled_value (hists h d)))
           (dim_field (hists h d)) (num_sampled (hists h d)) k hp
           (vecs h (noise_variance (hists h d))) \<and>
         dim (fst (LogLikelihood_init cls c d k h))
             (apply_writes ws (snd (LogLikelihood_init cls c d k h))) =
         dim_field (hists h d) \<and>
         num_hyperparameters (fst (LogLikelihood_init cls c d k h))
             (apply_writes ws (snd (LogLikelihood_init cls c d k h))) =
         cov_num_hyperparameters c h \<and>
         get_hyperparameters (ev_covariance (fst (LogLikelihood_init cls c d k h)))
             (apply_writes ws (snd (LogLikelihood_init cls c d k h))) =
         get_hyperparameters c h \<and>
         next_ref h \<le> ev_covariance (fst (LogLikelihood_init cls c d k h)) \<and>
         next_ref h \<le> ev_historical_data (fst (LogLikelihood_init cls c d k h)) \<and>
         next_ref h \<le> points_sampled (hists (snd (LogLikelihood_init cls c d k h))
            (ev_historical_data (fst (LogLikelihood_init cls c d k h)))) \<and>
         next_ref h \<le> points_sampled_value (hists (snd (LogLikelihood_init cls c d k h))
            (ev_historical_data (fst (LogLikelihood_init cls c d k h)))) \<and>
         next_ref h \<le> noise_variance (hists (snd (LogLikelihood_init cls c d k h))
            (ev_historical_data (fst (LogLikelihood_init cls c d k h)))) \<and>
         (c < next_ref h \<longrightarrow> covs (snd (LogLikelihood_init cls c d k h)) c = covs h c) \<and>
         (d < next_ref h \<longrightarrow> hists (snd (LogLikelihood_init cls c d k h)) d = hists h d)"
proof -
  let ?ev = "fst (LogLikelihood_init cls c d k h)"
  let ?h1 = "snd (LogLikelihood_init cls c d k h)"
  let ?h2 = "apply_writes ws ?h1"
  let ?nv = "if noise_variance (hists h d) = points_sampled_value (hists h d)
             then next_ref h + 2 else next_ref h + 3"
  have fr: "\<And>a. next_ref h \<le> a \<Longrightarrow> covs ?h2 a = covs ?h1 a"
           "\<And>a. next_ref h \<le> a \<Longrightarrow> hists ?h2 a = hists ?h1 a"
           "\<And>a. next_ref h \<le> a \<Longrightarrow> vecs ?h2 a = vecs ?h1 a"
           "\<And>a. next_ref h \<le> a \<Longrightarrow> mats ?h2 a = mats ?h1 a"
    using apply_writes_frame [OF assms] by blast+
  have hst: "hists ?h2 (next_ref h + 4) = hists ?h1 (next_ref h + 4)"
    by (rule fr) simp
  have cov: "covs ?h2 (next_ref h) = covs h c"
    by (simp add: fr LogLikelihood_init_contents)
  have mat: "mats ?h2 (next_ref h + 1) = mats h (points_sampled (hists h d))"
    using fr(4) [of "next_ref h + 1"] LogLikelihood_init_contents(4) [of cls c d k h]
    by simp
  have psv: "vecs ?h2 (next_ref h + 2) = vecs h (points_sampled_value (hists h d))"
    using fr(3) [of "next_ref h + 2"] LogLikelihood_init_contents(5) [of cls c d k h]
    by simp
  have nvge: "next_ref h \<le> ?nv" by simp
  have nv: "vecs ?h2 ?nv = vecs h (noise_variance (hists h d))"
    using fr(3) [OF nvge] LogLikelihood_init_contents(6) [of cls c d k h] by simp
  have nv1: "vecs ?h1 ?nv = vecs h (noise_variance (hists h d))"
    by (rule LogLikelihood_init_contents)
  have vals2: "fst (compute_log_likelihood E ?ev hp ?h2) =
      cpp_compute_log_likelihood E (mats h (points_sampled (hists h d)))
        (vecs h (points_sampled_value (hists h d)))
        (dim_field (hists h d)) (num_sampled (hists h d)) k hp
        (vecs h (noise_variance (hists h d)))"
    unfolding compute_log_likelihood_value LogLikelihood_init_refs hst LogLikelihood_init_hist
      mat psv nv LogLikelihood_init_contents ..
  have vals1: "fst (compute_log_likelihood E ?ev hp ?h1) =
      cpp_compute_log_likelihood E (mats h (points_sampled (hists h d)))
        (vecs h (points_sampled_value (hists h d)))
        (dim_field (hists h d)) (num_sampled (hists h d)) k hp
        (vecs h (noise_variance (hists h d)))"
    unfolding compute_log_likelihood_value LogLikelihood_init_refs LogLikelihood_init_hist
      nv1 LogLikelihood_init_contents ..
  have grad2: "fst (compute_grad_log_likelihood E ?ev hp ?h2) =
      cpp_compute_hyperparameter_grad_log_likelihood E (mats h (points_sampled (hists h d)))
        (vecs h (points_sampled_value (hists h d)))
        (dim_field (hists h d)) (num_sampled (hists h d)) k hp
        (vecs h (noise_variance (hists h d)))"
    unfolding compute_grad_log_likelihood_value LogLikelihood_init_refs hst
      LogLikelihood_init_hist mat psv nv LogLikelihood_init_contents ..
  have grad1: "fst (compute_grad_log_likelihood E ?ev hp ?h1) =
      cpp_compute_hyperparameter_grad_log_likelihood E (mats h (points_sampled (hists h d)))
        (vecs h (points_sampled_value (hists h d)))
        (dim_field (hists h d)) (num_sampled (hists h d)) k hp
        (vecs h (noise_variance (hists h d)))"
    unfolding compute_grad_log_likelihood_value LogLikelihood_init_refs
      LogLikelihood_init_hist nv1 LogLikelihood_init_contents ..
  have dims: "dim ?ev ?h2 = dim_field (hists h d)" "dim ?ev ?h1 = dim_field (hists h d)"
    by (simp_all add: dim_def LogLikelihood_init_refs hst LogLikelihood_init_contents)
  have nums: "num_hyperparameters ?ev ?h2 = cov_num_hyperparameters c h"
    "num_hyperparameters ?ev ?h1 = cov_num_hyperparameters c h"
    "get_hyperparameters (ev_covariance ?ev) ?h2 = get_hyperparameters c h"
    by (simp_all add: num_hyperparameters_def cov_num_hyperparameters_def
        get_hyperparameters_def LogLikelihood_init_refs cov LogLikelihood_init_contents)
  have fresh: "next_ref h \<le> ev_covariance ?ev" "next_ref h \<le> ev_historical_data ?ev"
    "next_ref h \<le> points_sampled (hists ?h1 (ev_historical_data ?ev))"
    "next_ref h \<le> points_sampled_value (hists ?h1 (ev_historical_data ?ev))"
    "next_ref h \<le> noise_variance (hists ?h1 (ev_historical_data ?ev))"
    by (simp_all add: LogLikelihood_init_refs LogLikelihood_init_hist)
  have kept: "c < next_ref h \<longrightarrow> covs ?h1 c = covs h c"
    "d < next_ref h \<longrightarrow> hists ?h1 d = hists h d"
    by (simp_all add: LogLikelihood_init_frame)
  show ?thesis
    using vals1 vals2 grad1 grad2 dims nums fresh kept by simp
qed

text \<open>
  C5 on the small instance: the caller overwrites its kernel (address 3), its data set
  (address 4) and two of the arrays after the construction; the evaluator still computes
  with the kernel \<open>[1, 2]\<close> and the observed values \<open>[0, 1, 0]\<close> it was built from.
\<close>

theorem C5_private_copies_witness:
  "list_all (\<lambda>w. write_addr w < next_ref example_heap) example_writes \<and>
   (3::nat) < next_ref example_heap \<and> (4::nat) < next_ref example_heap \<and>
   fst (compute_log_likelihood example_native
          (fst (LogLikelihood_init LogLikelihood 3 4 log_marginal_likelihood example_heap)) [1, 2]
          (apply_writes example_writes
             (snd (LogLikelihood_init LogLikelihood 3 4 log_marginal_likelihood example_heap)))) =
     - 2 \<and>
   dim (fst (LogLikelihood_init LogLikelihood 3 4 log_marginal_likelihood example_heap))
       (apply_writes example_writes
          (snd (LogLikelihood_init LogLikelihood 3 4 log_marginal_likelihood example_heap))) =
     1 \<and>
   num_hyperparameters
       (fst (LogLikelihood_init LogLikelihood 3 4 log_marginal_likelihood example_heap))
       (apply_writes example_writes
          (snd (LogLikelihood_init LogLikelihood 3 4 log_marginal_likelihood example_heap))) =
     2 \<and>
   get_hyperparameters
       (ev_covariance
          (fst (LogLikelihood_init LogLikelihood 3 4 log_marginal_likelihood example_heap)))
       (apply_writes example_writes
          (snd (LogLikelihood_init LogLikelihood 3 4 log_marginal_likelihood example_heap))) =
     [1, 2] \<and>
   covs (snd (LogLikelihood_init LogLikelihood 3 4 log_marginal_likelihood example_heap)) 3 =
     covs example_heap 3 \<and>
   hists (snd (LogLikelihood_init LogLikelihood 3 4 log_marginal_likelihood example_heap)) 4 =
     hists example_heap 4"
proof -
  have w: "list_all (\<lambda>w. write_addr w < next_ref example_heap) example_writes"
    by (simp add: example_writes_def example_heap_def)
  have lt: "(3::nat) < next_ref example_heap" "(4::nat) < next_ref example_heap"
    by (simp_all add: example_heap_def)
  have src: "cpp_compute_log_likelihood example_native
      (mats example_heap (points_sampled (hists example_heap 4)))
      (vecs example_heap (points_sampled_value (hists example_heap 4)))
      (dim_field (hists example_heap 4)) (num_sampled (hists example_heap 4))
      log_marginal_likelihood [1, 2]
      (vecs example_heap (noise_variance (hists example_heap 4))) = - 2"
    "dim_field (hists example_heap 4) = 1"
    "cov_num_hyperparameters 3 example_heap = 2"
    "get_hyperparameters 3 example_heap = [1, 2]"
    by (simp_all add: example_native_def example_heap_def cov_num_hyperparameters_def
        get_hyperparameters_def)
  show ?thesis
    using w lt src
      C5_private_copies [OF w, of example_native LogLikelihood 3 4 log_marginal_likelihood
        "[1, 2]"]
    by simp
qed

text \<open>
  C6: after \<open>compute_log_likelihood\<close>, and after \<open>compute_grad_log_likelihood\<close>, the
  evaluator's covariance object holds exactly the vector passed in; that one object is the
  only cell of the store that can differ from before: the data set, every array, every
  parameter object and every dict are as they were, and nothing is allocated.
\<close>

theorem C6_evaluation_sets_kernel_hyperparameters:
  "get_hyperparameters (ev_covariance self) (snd (compute_log_likelihood E self hp h)) = hp \<and>
   covs (snd (compute_log_likelihood E self hp h)) =
     (covs h)(ev_covariance self :=
        covs (snd (compute_log_likelihood E self hp h)) (ev_covariance self)) \<and>
   hists (snd (compute_log_likelihood E self hp h)) = hists h \<and>
   vecs (snd (compute_log_likelihood E self hp h)) = vecs h \<and>
   mats (snd (compute_log_likelihood E self hp h)) = mats h \<and>
   params (snd (compute_log_likelihood E self hp h)) = params h \<and>
   dicts (snd (compute_log_likelihood E self hp h)) = dicts h \<and>
   next_ref (snd (compute_log_likelihood E self hp h)) = next_ref h \<and>
   get_hyperparameters (ev_covariance self) (snd (compute_grad_log_likelihood E self hp h)) = hp \<and>
   covs (snd (compute_grad_log_likelihood E self hp h)) =
     (covs h)(ev_covariance self :=
        covs (snd (compute_grad_log_likelihood E self hp h)) (ev_covariance self)) \<and>
   hists (snd (compute_grad_log_likelihood E self hp h)) = hists h \<and>
   vecs (snd (compute_grad_log_likelihood E self hp h)) = vecs h \<and>
   mats (snd (compute_grad_log_likelihood E self hp h)) = mats h \<and>
   params (snd (compute_grad_log_likelihood E self hp h)) = params h \<and>
   dicts (snd (compute_grad_log_likelihood E self hp h)) = dicts h \<and>
   next_ref (snd (compute_grad_log_likelihood E self hp h)) = next_ref h"
  unfolding compute_log_likelihood_heap compute_grad_log_likelihood_heap
  by (simp add: set_hyperparameters_frame get_set_hyperparameters)
     (simp add: set_hyperparameters_def)

text \<open>
  C7: \<open>evaluate_log_likelihood_at_hyperparameter_list\<close> on \<open>[h1, ..., hn]\<close> returns the
  list of the values of \<open>compute_log_likelihood\<close> at \<open>h1\<close>, ..., \<open>hn\<close>, whether
  the single calls are made one after the other on the evolving store or each on the store
  of the batch call.
\<close>

theorem C7_batch_evaluation_consistent:
  "evaluate_log_likelihood_at_hyperparameter_list E self hps t h =
     fst (compute_each E self hps h) \<and>
   evaluate_log_likelihood_at_hyperparameter_list E self hps t h =
     map (\<lambda>hp. fst (compute_log_likelihood E self hp h)) hps"
  by (simp add: evaluate_log_likelihood_at_hyperparameter_list_def Let_def
      C_GP_evaluate_log_likelihood_at_hyperparameter_list_def compute_each_values
      compute_log_likelihood_value)

text \<open>
  C9: with \<open>status = None\<close> the dict handed to the engine is a new, empty one at an
  address no caller holds; after the call every dict that existed before is unchanged, so
  the flag is in no object the caller can read. With a caller's dict at address \<open>s\<close>,
  that dict is the one handed to the engine, it is the only dict that can change, and after
  a call that returns a vector it holds a value for \<open>found_improvement\<close>.
\<close>

theorem C9_default_status_is_local:
  "ec_status (fst (multistart_call_arguments E ev p dm rnd t None e h)) = next_ref h \<and>
   dicts (snd (multistart_call_arguments E ev p dm rnd t None e h)) (next_ref h) = Map.empty \<and>
   dicts (snd (multistart_hyperparameter_optimization E ev p dm rnd t None e h)) =
     (dicts h)(next_ref h :=
        dicts (snd (multistart_hyperparameter_optimization E ev p dm rnd t None e h))
          (next_ref h)) \<and>
   next_ref (snd (multistart_hyperparameter_optimization E ev p dm rnd t None e h)) =
     next_ref h + 1 \<and>
   ec_status (fst (multistart_call_arguments E ev p dm rnd t (Some s) e h)) = s \<and>
   dicts (snd (multistart_hyperparameter_optimization E ev p dm rnd t (Some s) e h)) =
     (dicts h)(s :=
        dicts (snd (multistart_hyperparameter_optimization E ev p dm rnd t (Some s) e h)) s) \<and>
   next_ref (snd (multistart_hyperparameter_optimization E ev p dm rnd t (Some s) e h)) =
     next_ref h \<and>
   (fst (multistart_hyperparameter_optimization E ev p dm rnd t (Some s) e h) = Inr v \<longrightarrow>
      (\<exists>b. dicts (snd (multistart_hyperparameter_optimization E ev p dm rnd t (Some s) e h)) s
              ''found_improvement'' = Some b))"
proof -
  let ?aN = "fst (multistart_call_arguments E ev p dm rnd t None e h)"
  let ?hN = "snd (multistart_call_arguments E ev p dm rnd t None e h)"
  let ?aS = "fst (multistart_call_arguments E ev p dm rnd t (Some s) e h)"
  let ?hS = "snd (multistart_call_arguments E ev p dm rnd t (Some s) e h)"
  have N: "multistart_hyperparameter_optimization E ev p dm rnd t None e h =
      C_GP_multistart_hyperparameter_optimization E ?aN ?hN"
    and S: "multistart_hyperparameter_optimization E ev p dm rnd t (Some s) e h =
      C_GP_multistart_hyperparameter_optimization E ?aS ?hS"
    by (simp_all add: multistart_hyperparameter_optimization_def split_beta)
  have aN: "ec_status ?aN = next_ref h" and aS: "ec_status ?aS = s"
    by (simp_all add: multistart_call_arguments_def Let_def split: option.splits)
  have hN: "dicts ?hN = (dicts h)(next_ref h := Map.empty)" "next_ref ?hN = next_ref h + 1"
    and hS: "dicts ?hS = dicts h" "next_ref ?hS = next_ref h"
    by (simp_all add: multistart_call_arguments_def Let_def split: option.splits)
  have dN: "dicts (snd (C_GP_multistart_hyperparameter_optimization E ?aN ?hN)) =
      (dicts h)(next_ref h :=
         dicts (snd (C_GP_multistart_hyperparameter_optimization E ?aN ?hN)) (next_ref h))"
    by (subst engine_dicts) (simp add: aN hN)
  have dS: "dicts (snd (C_GP_multistart_hyperparameter_optimization E ?aS ?hS)) =
      (dicts h)(s := dicts (snd (C_GP_multistart_hyperparameter_optimization E ?aS ?hS)) s)"
    by (subst engine_dicts) (simp add: aS hS)
  have rS: "fst (C_GP_multistart_hyperparameter_optimization E ?aS ?hS) = Inr v \<longrightarrow>
      (\<exists>b. dicts (snd (C_GP_multistart_hyperparameter_optimization E ?aS ?hS)) s
              ''found_improvement'' = Some b)"
    using engine_reports [of E ?aS ?hS v] by (simp add: aS)
  show ?thesis
    unfolding N S
    using dN dS rS by (simp add: aN aS hN hS engine_frame)
qed

text \<open>
  C9 on the small instance: the call returns a vector, and the caller's dict at address 7
  holds the flag afterwards.
\<close>

theorem C9_default_status_is_local_witness:
  "\<exists>b. dicts (snd (multistart_hyperparameter_optimization example_native example_evaluator 0
          None None 1 (Some 7) 0 example_heap)) 7 ''found_improvement'' = Some b"
  using C9_default_status_is_local [of example_native example_evaluator 0 None None 1 0
      example_heap 7 "[0, 0]"]
    example_result [of "Some 7" 0]
  by simp

text \<open>
  C10: after every call, returned or raised, the caller's parameter object has the
  evaluator's \<open>_log_likelihood_type\<close> as its \<open>objective_type\<close>, whatever it held
  before; the assignment is made before the native call, whose arguments carry it.
\<close>

theorem C10_objective_type_overwritten:
  "params (snd (multistart_hyperparameter_optimization E ev p dm rnd t st e h)) p =
     (params h p)\<lparr>objective_type := ev_log_likelihood_type ev\<rparr> \<and>
   objective_type (ec_parameters (fst (multistart_call_arguments E ev p dm rnd t st e h))) =
     ev_log_likelihood_type ev \<and>
   params (snd (multistart_call_arguments E ev p dm rnd t st e h)) p =
     (params h p)\<lparr>objective_type := ev_log_likelihood_type ev\<rparr>"
  by (simp add: multistart_hyperparameter_optimization_def multistart_call_arguments_def
      Let_def engine_frame split: option.splits prod.splits)

end
